theory Spec2Isabelle
  imports Complex_Main
begin

section \<open>Values, errors and the array helpers\<close>

text \<open>
  The module \<^verbatim>\<open>roboticstoolbox/robot/DHLink.py\<close> works on Python floats and numpy
  arrays. Floats are modelled as \<^typ>\<open>real\<close>, a one-dimensional array as a list and a
  two-dimensional array as the list of its rows; NaN, which no real number models, is
  treated apart for the symmetry test of the inertia setter. The symbolic branch of \<^verbatim>\<open>_sin\<close> and
  \<^verbatim>\<open>_cos\<close> (sympy expressions) is outside the model: every scalar is numeric.

  An exception is a value: the exception class with the message the source gives it.
\<close>

datatype error = ValueError string | TypeError string | IndexError

datatype pyval = Scalar real | Vec "real list" | Mat "real list list"

text \<open>Reading \<^verbatim>\<open>v[i]\<close> of a one-dimensional array with a constant index \<open>i \<ge> 0\<close>.\<close>

definition getitem :: "real list \<Rightarrow> nat \<Rightarrow> error + real" where
  "getitem v i = (if i < length v then Inr (v ! i) else Inl IndexError)"

text \<open>
  Modelled from the spec: \<^verbatim>\<open>getvector\<close>, \<^verbatim>\<open>isscalar\<close>, \<^verbatim>\<open>isvector\<close> and
  \<^verbatim>\<open>ismatrix\<close> are imported from the package \<^verbatim>\<open>spatialmath.base.argcheck\<close>, which is
  not part of this repository. The spec speaks of scalars, n-vectors ("1-element or
  2-element input", "6-vector", "3-vector", "9-vector") and 3x3 matrices; here an
  n-vector is a one-dimensional array of n elements, a scalar is also read as a
  1-vector by \<^verbatim>\<open>getvector\<close>, and a two-dimensional array is a matrix only.
\<close>

definition isscalar :: "pyval \<Rightarrow> bool" where
  "isscalar x = (case x of Scalar _ \<Rightarrow> True | _ \<Rightarrow> False)"

definition isvector :: "pyval \<Rightarrow> nat \<Rightarrow> bool" where
  "isvector x n = (case x of Vec v \<Rightarrow> length v = n | _ \<Rightarrow> False)"

definition ismatrix :: "pyval \<Rightarrow> nat \<times> nat \<Rightarrow> bool" where
  "ismatrix x shp =
     (case x of
        Mat rows \<Rightarrow> length rows = fst shp \<and> list_all (\<lambda>row. length row = snd shp) rows
      | _ \<Rightarrow> False)"

definition getvector :: "pyval \<Rightarrow> nat \<Rightarrow> error + real list" where
  "getvector x n =
     (case x of
        Scalar s \<Rightarrow> if n = 1 then Inr [s] else Inl (ValueError ''incorrect vector length'')
      | Vec v \<Rightarrow> if length v = n then Inr v else Inl (ValueError ''incorrect vector length'')
      | Mat _ \<Rightarrow> Inl (ValueError ''incorrect vector length''))"

text \<open>The numeric branch of the module's \<^verbatim>\<open>_sin\<close> and \<^verbatim>\<open>_cos\<close>.\<close>

definition dh_sin :: "real \<Rightarrow> real" where
  "dh_sin x = sin x"

definition dh_cos :: "real \<Rightarrow> real" where
  "dh_cos x = cos x"

section \<open>The link object\<close>

text \<open>
  The attributes of a \<^verbatim>\<open>DHLink\<close> object, in the order \<^verbatim>\<open>__init__\<close> assigns them.
  Field \<open>dh_x\<close> is the Python attribute \<^verbatim>\<open>_x\<close>. \<open>dh_robot\<close> is the back-reference
  \<^verbatim>\<open>_robot\<close> to the owning robot (\<open>None\<close> when the link has no owner); \<open>dh_sigma\<close> is
  0 for a revolute joint and anything else for a prismatic one; \<open>dh_mdh\<close> is 0 for
  the standard convention and anything else for the modified one.
\<close>

record DHLink =
  dh_robot :: "nat option"
  dh_sigma :: int
  dh_theta :: real
  dh_d :: real
  dh_alpha :: real
  dh_a :: real
  dh_mdh :: int
  dh_offset :: real
  dh_flip :: bool
  dh_qlim :: "real list"
  dh_m :: real
  dh_r :: "real list"
  dh_I :: "real list list"
  dh_Jm :: real
  dh_B :: real
  dh_Tc :: "real list"
  dh_G :: real

section \<open>Friction\<close>

text \<open>
  \<^verbatim>\<open>DHLink.friction(self, qd, coulomb=True)\<close>, lines 843 to 854. The two reads
  \<^verbatim>\<open>self.Tc[0]\<close> and \<^verbatim>\<open>self.Tc[1]\<close> can raise, so the result is a sum.
\<close>

definition friction :: "DHLink \<Rightarrow> real \<Rightarrow> bool \<Rightarrow> error + real" where
  "friction self qd coulomb =
     (let tau = dh_B self * \<bar>dh_G self\<bar> * qd in
      case (if coulomb then
              (if qd > 0 then
                 (case getitem (dh_Tc self) 0 of Inl e \<Rightarrow> Inl e | Inr t \<Rightarrow> Inr (tau + t))
               else if qd < 0 then
                 (case getitem (dh_Tc self) 1 of Inl e \<Rightarrow> Inl e | Inr t \<Rightarrow> Inr (tau + t))
               else Inr tau)
            else Inr tau) of
        Inl e \<Rightarrow> Inl e
      | Inr tau' \<Rightarrow> Inr (- \<bar>dh_G self\<bar> * tau'))"

section \<open>The link transform and the predicates\<close>

text \<open>
  \<^verbatim>\<open>DHLink.A(self, q)\<close>, lines 692 to 728. The result is the 4x4 array handed to
  \<^verbatim>\<open>SE3(T, check=False)\<close>, which wraps it without checking or changing it.
\<close>

definition A :: "DHLink \<Rightarrow> real \<Rightarrow> real list list" where
  "A self q =
     (let sa = dh_sin (dh_alpha self);
          ca = dh_cos (dh_alpha self);
          q = (if dh_flip self then - q + dh_offset self else q + dh_offset self);
          (st, ct, d) =
            (if dh_sigma self = 0 then (dh_sin q, dh_cos q, dh_d self)
             else (dh_sin (dh_theta self), dh_cos (dh_theta self), q))
      in if dh_mdh self = 0 then
           [[ct, - st * ca, st * sa, dh_a self * ct],
            [st, ct * ca, - ct * sa, dh_a self * st],
            [0, sa, ca, d],
            [0, 0, 0, 1]]
         else
           [[ct, - st, 0, dh_a self],
            [st * ca, ct * ca, - sa, - sa * d],
            [st * sa, ct * sa, ca, ca * d],
            [0, 0, 0, 1]])"

text \<open>
  \<^verbatim>\<open>DHLink.islimit(self, q)\<close>, lines 740 to 743. Python's \<^verbatim>\<open>or\<close> reads
  \<^verbatim>\<open>self.qlim[1]\<close> only when the first comparison is false.
\<close>

definition islimit :: "DHLink \<Rightarrow> real \<Rightarrow> error + bool" where
  "islimit self q =
     (case getitem (dh_qlim self) 0 of
        Inl e \<Rightarrow> Inl e
      | Inr lo \<Rightarrow>
          if q < lo then Inr True
          else (case getitem (dh_qlim self) 1 of
                  Inl e \<Rightarrow> Inl e
                | Inr hi \<Rightarrow> if q > hi then Inr True else Inr False))"

text \<open>\<^verbatim>\<open>isrevolute\<close> and \<^verbatim>\<open>isprismatic\<close>: the truth value of the integer \<^verbatim>\<open>sigma\<close>.\<close>

definition isrevolute :: "DHLink \<Rightarrow> bool" where
  "isrevolute self = (if \<not> (dh_sigma self \<noteq> 0) then True else False)"

definition isprismatic :: "DHLink \<Rightarrow> bool" where
  "isprismatic self = (if dh_sigma self \<noteq> 0 then True else False)"

section \<open>Array operations of the inertia setter\<close>

text \<open>
  The numpy operations the setter of \<^verbatim>\<open>I\<close> uses, on arrays given by rows: the
  transpose \<^verbatim>\<open>M.T\<close>, the elementwise difference, absolute value and comparison,
  \<^verbatim>\<open>np.any\<close>, \<^verbatim>\<open>v.reshape(r, c)\<close> (row-major) and \<^verbatim>\<open>np.diag(v)\<close> of a
  one-dimensional array.
\<close>

definition as_scalar :: "pyval \<Rightarrow> real" where
  "as_scalar x = (case x of Scalar s \<Rightarrow> s | _ \<Rightarrow> 0)"

definition as_vec :: "pyval \<Rightarrow> real list" where
  "as_vec x = (case x of Vec v \<Rightarrow> v | _ \<Rightarrow> [])"

definition as_mat :: "pyval \<Rightarrow> real list list" where
  "as_mat x = (case x of Mat rows \<Rightarrow> rows | _ \<Rightarrow> [])"

definition np_T :: "real list list \<Rightarrow> real list list" where
  "np_T M = (case M of [] \<Rightarrow> [] | row0 # _ \<Rightarrow> map (\<lambda>j. map (\<lambda>row. row ! j) M) [0..<length row0])"

definition np_sub :: "real list list \<Rightarrow> real list list \<Rightarrow> real list list" where
  "np_sub X Y = map (\<lambda>(xs, ys). map (\<lambda>(x, y). x - y) (zip xs ys)) (zip X Y)"

definition np_abs :: "real list list \<Rightarrow> real list list" where
  "np_abs X = map (map abs) X"

definition np_gt :: "real list list \<Rightarrow> real \<Rightarrow> bool list list" where
  "np_gt X c = map (map (\<lambda>x. x > c)) X"

definition np_any :: "bool list list \<Rightarrow> bool" where
  "np_any X = list_ex (list_ex (\<lambda>b. b)) X"

definition np_reshape :: "real list \<Rightarrow> nat \<times> nat \<Rightarrow> real list list" where
  "np_reshape v shp =
     map (\<lambda>i. map (\<lambda>j. v ! (i * snd shp + j)) [0..<snd shp]) [0..<fst shp]"

definition np_diag :: "real list \<Rightarrow> real list list" where
  "np_diag v =
     map (\<lambda>i. map (\<lambda>j. if i = j then v ! i else 0) [0..<length v]) [0..<length v]"

section \<open>The setters\<close>

text \<open>
  The body of each property setter (lines 456 to 581) as a function of the object's
  attributes and the new value: \<open>Inl\<close> is the exception raised, \<open>Inr\<close> the attributes
  after the assignment. Every body assigns once, as its last statement, so an exception
  leaves the attributes as they were.
\<close>

definition d_body :: "DHLink \<Rightarrow> real \<Rightarrow> error + DHLink" where
  "d_body self d_new =
     (if dh_sigma self \<noteq> 0 \<and> d_new \<noteq> 0 then
        Inl (ValueError ''f is not valid for prismatic joints'')
      else Inr (self\<lparr>dh_d := d_new\<rparr>))"

definition alpha_body :: "DHLink \<Rightarrow> real \<Rightarrow> error + DHLink" where
  "alpha_body self alpha_new = Inr (self\<lparr>dh_alpha := alpha_new\<rparr>)"

definition theta_body :: "DHLink \<Rightarrow> real \<Rightarrow> error + DHLink" where
  "theta_body self theta_new =
     (if \<not> (dh_sigma self \<noteq> 0) \<and> theta_new \<noteq> 0 then
        Inl (ValueError ''theta is not valid for revolute joints'')
      else Inr (self\<lparr>dh_theta := theta_new\<rparr>))"

definition a_body :: "DHLink \<Rightarrow> real \<Rightarrow> error + DHLink" where
  "a_body self a_new = Inr (self\<lparr>dh_a := a_new\<rparr>)"

definition sigma_body :: "DHLink \<Rightarrow> int \<Rightarrow> error + DHLink" where
  "sigma_body self sigma_new = Inr (self\<lparr>dh_sigma := sigma_new\<rparr>)"

text \<open>\<^verbatim>\<open>int(mdh_new)\<close>: the argument is an integer, a Python bool being 0 or 1.\<close>

definition mdh_body :: "DHLink \<Rightarrow> int \<Rightarrow> error + DHLink" where
  "mdh_body self mdh_new = Inr (self\<lparr>dh_mdh := mdh_new\<rparr>)"

definition offset_body :: "DHLink \<Rightarrow> real \<Rightarrow> error + DHLink" where
  "offset_body self offset_new = Inr (self\<lparr>dh_offset := offset_new\<rparr>)"

definition qlim_body :: "DHLink \<Rightarrow> pyval \<Rightarrow> error + DHLink" where
  "qlim_body self qlim_new =
     (case getvector qlim_new 2 of Inl e \<Rightarrow> Inl e | Inr v \<Rightarrow> Inr (self\<lparr>dh_qlim := v\<rparr>))"

definition flip_body :: "DHLink \<Rightarrow> bool \<Rightarrow> error + DHLink" where
  "flip_body self flip_new = Inr (self\<lparr>dh_flip := flip_new\<rparr>)"

definition m_body :: "DHLink \<Rightarrow> real \<Rightarrow> error + DHLink" where
  "m_body self m_new = Inr (self\<lparr>dh_m := m_new\<rparr>)"

definition r_body :: "DHLink \<Rightarrow> pyval \<Rightarrow> error + DHLink" where
  "r_body self r_new =
     (case getvector r_new 3 of Inl e \<Rightarrow> Inl e | Inr v \<Rightarrow> Inr (self\<lparr>dh_r := v\<rparr>))"

text \<open>
  The test \<^verbatim>\<open>np.any(np.abs(I_new - I_new.T) > 1e-8)\<close> of lines 520 and 526, for
  arrays none of whose entries is NaN. The test on doubles, NaN included, is
  \<open>not_symmetric_double\<close> below; the two agree on NaN-free 3x3 arrays
  (\<open>not_symmetric_double_Fin\<close>).
\<close>

definition not_symmetric :: "real list list \<Rightarrow> bool" where
  "not_symmetric M = np_any (np_gt (np_abs (np_sub M (np_T M))) (1 / 100000000))"

definition I_body :: "DHLink \<Rightarrow> pyval \<Rightarrow> error + DHLink" where
  "I_body self I_new =
     (if ismatrix I_new (3, 3) then
        (if not_symmetric (as_mat I_new) then Inl (ValueError ''3x3 matrix is not symmetric'')
         else Inr (self\<lparr>dh_I := as_mat I_new\<rparr>))
      else if isvector I_new 9 then
        (let M = np_reshape (as_vec I_new) (3, 3) in
         if not_symmetric M then Inl (ValueError ''3x3 matrix is not symmetric'')
         else Inr (self\<lparr>dh_I := M\<rparr>))
      else if isvector I_new 6 then
        (let v = as_vec I_new in
         Inr (self\<lparr>dh_I := [[v ! 0, v ! 3, v ! 5],
                             [v ! 3, v ! 1, v ! 4],
                             [v ! 5, v ! 4, v ! 2]]\<rparr>))
      else if isvector I_new 3 then Inr (self\<lparr>dh_I := np_diag (as_vec I_new)\<rparr>)
      else Inl (ValueError ''invalid shape passed: must be (3,3), (6,), (3,)''))"

definition Jm_body :: "DHLink \<Rightarrow> real \<Rightarrow> error + DHLink" where
  "Jm_body self Jm_new = Inr (self\<lparr>dh_Jm := Jm_new\<rparr>)"

definition B_body :: "DHLink \<Rightarrow> pyval \<Rightarrow> error + DHLink" where
  "B_body self B_new =
     (if isscalar B_new then Inr (self\<lparr>dh_B := as_scalar B_new\<rparr>)
      else Inl (TypeError ''B must be a scalar''))"

text \<open>
  \<^verbatim>\<open>try: ... except ValueError: ...\<close> of lines 564 to 574: the handler runs only for
  a \<^verbatim>\<open>ValueError\<close> of the \<^verbatim>\<open>try\<close> block; what the handler raises is not caught.
\<close>

definition Tc_body :: "DHLink \<Rightarrow> pyval \<Rightarrow> error + DHLink" where
  "Tc_body self Tc_new =
     (let attempt =
            (case getvector Tc_new 1 of
               Inl e \<Rightarrow> Inl e
             | Inr Tc \<Rightarrow>
                 (case getitem Tc 0 of Inl e \<Rightarrow> Inl e | Inr t \<Rightarrow> Inr [t, - t]));
          handled =
            (case attempt of Inl (ValueError _) \<Rightarrow> getvector Tc_new 2 | _ \<Rightarrow> attempt)
      in case handled of Inl e \<Rightarrow> Inl e | Inr v \<Rightarrow> Inr (self\<lparr>dh_Tc := v\<rparr>))"

definition G_body :: "DHLink \<Rightarrow> real \<Rightarrow> error + DHLink" where
  "G_body self G_new = Inr (self\<lparr>dh_G := G_new\<rparr>)"

section \<open>Objects, the owner and the decorated setters\<close>

text \<open>
  A link is a mutable object, so the program state holds the attributes of every
  object by reference; \<open>next_ref\<close> is the first reference not yet in use.

  Modelled from the spec: the owning robot (class \<^verbatim>\<open>DHRobot\<close>, not part of this
  repository) is "an opaque capability" with the no-argument callback
  \<^verbatim>\<open>dynchanged()\<close>; all the state keeps of a robot is how many times the callback
  was called.
\<close>

record world =
  objs :: "nat \<Rightarrow> DHLink"
  next_ref :: nat
  dyn_calls :: "nat \<Rightarrow> nat"

definition dynchanged :: "nat \<Rightarrow> world \<Rightarrow> world" where
  "dynchanged rb w = w\<lparr>dyn_calls := (dyn_calls w)(rb := Suc (dyn_calls w rb))\<rparr>"

text \<open>Running a setter body on the object at reference \<open>self\<close>.\<close>

definition call_setter ::
  "(DHLink \<Rightarrow> 'a \<Rightarrow> error + DHLink) \<Rightarrow> nat \<Rightarrow> 'a \<Rightarrow> world \<Rightarrow> (error + unit) \<times> world" where
  "call_setter func self x w =
     (case func (objs w self) x of
        Inl e \<Rightarrow> (Inl e, w)
      | Inr self' \<Rightarrow> (Inr (), w\<lparr>objs := (objs w)(self := self')\<rparr>))"

text \<open>
  The decorator \<^verbatim>\<open>_listen_dyn\<close>, lines 181 to 187: the owner, if any, is told first,
  then the decorated function runs.
\<close>

definition notify_owner :: "nat \<Rightarrow> world \<Rightarrow> world" where
  "notify_owner self w =
     (case dh_robot (objs w self) of None \<Rightarrow> w | Some rb \<Rightarrow> dynchanged rb w)"

definition listen_dyn ::
  "(DHLink \<Rightarrow> 'a \<Rightarrow> error + DHLink) \<Rightarrow> nat \<Rightarrow> 'a \<Rightarrow> world \<Rightarrow> (error + unit) \<times> world" where
  "listen_dyn func self x w = call_setter func self x (notify_owner self w)"

definition d_setter :: "nat \<Rightarrow> real \<Rightarrow> world \<Rightarrow> (error + unit) \<times> world" where
  "d_setter = listen_dyn d_body"

definition alpha_setter :: "nat \<Rightarrow> real \<Rightarrow> world \<Rightarrow> (error + unit) \<times> world" where
  "alpha_setter = listen_dyn alpha_body"

definition theta_setter :: "nat \<Rightarrow> real \<Rightarrow> world \<Rightarrow> (error + unit) \<times> world" where
  "theta_setter = listen_dyn theta_body"

definition a_setter :: "nat \<Rightarrow> real \<Rightarrow> world \<Rightarrow> (error + unit) \<times> world" where
  "a_setter = listen_dyn a_body"

definition sigma_setter :: "nat \<Rightarrow> int \<Rightarrow> world \<Rightarrow> (error + unit) \<times> world" where
  "sigma_setter = listen_dyn sigma_body"

definition mdh_setter :: "nat \<Rightarrow> int \<Rightarrow> world \<Rightarrow> (error + unit) \<times> world" where
  "mdh_setter = listen_dyn mdh_body"

definition offset_setter :: "nat \<Rightarrow> real \<Rightarrow> world \<Rightarrow> (error + unit) \<times> world" where
  "offset_setter = call_setter offset_body"

definition qlim_setter :: "nat \<Rightarrow> pyval \<Rightarrow> world \<Rightarrow> (error + unit) \<times> world" where
  "qlim_setter = call_setter qlim_body"

definition flip_setter :: "nat \<Rightarrow> bool \<Rightarrow> world \<Rightarrow> (error + unit) \<times> world" where
  "flip_setter = call_setter flip_body"

definition m_setter :: "nat \<Rightarrow> real \<Rightarrow> world \<Rightarrow> (error + unit) \<times> world" where
  "m_setter = listen_dyn m_body"

definition r_setter :: "nat \<Rightarrow> pyval \<Rightarrow> world \<Rightarrow> (error + unit) \<times> world" where
  "r_setter = listen_dyn r_body"

definition I_setter :: "nat \<Rightarrow> pyval \<Rightarrow> world \<Rightarrow> (error + unit) \<times> world" where
  "I_setter = listen_dyn I_body"

definition Jm_setter :: "nat \<Rightarrow> real \<Rightarrow> world \<Rightarrow> (error + unit) \<times> world" where
  "Jm_setter = listen_dyn Jm_body"

definition B_setter :: "nat \<Rightarrow> pyval \<Rightarrow> world \<Rightarrow> (error + unit) \<times> world" where
  "B_setter = listen_dyn B_body"

definition Tc_setter :: "nat \<Rightarrow> pyval \<Rightarrow> world \<Rightarrow> (error + unit) \<times> world" where
  "Tc_setter = listen_dyn Tc_body"

definition G_setter :: "nat \<Rightarrow> real \<Rightarrow> world \<Rightarrow> (error + unit) \<times> world" where
  "G_setter = listen_dyn G_body"

section \<open>Copying and zeroing friction\<close>

text \<open>
  \<^verbatim>\<open>_copy\<close> is \<^verbatim>\<open>copy.copy(self)\<close>: a new object whose attributes are bound to the same
  values, the back-reference \<^verbatim>\<open>_robot\<close> included.
\<close>

definition copy_link :: "nat \<Rightarrow> world \<Rightarrow> nat \<times> world" where
  "copy_link self w =
     (next_ref w,
      w\<lparr>objs := (objs w)(next_ref w := objs w self), next_ref := Suc (next_ref w)\<rparr>)"

text \<open>
  \<^verbatim>\<open>DHLink.nofriction(self, coulomb=True, viscous=False)\<close>, lines 791 to 799. The
  result is the reference of the new link.
\<close>

definition nofriction :: "nat \<Rightarrow> bool \<Rightarrow> bool \<Rightarrow> world \<Rightarrow> (error + nat) \<times> world" where
  "nofriction self coulomb viscous w =
     (let (link, w1) = copy_link self w in
      case (if viscous then B_setter link (Scalar 0) w1 else (Inr (), w1)) of
        (Inl e, w2) \<Rightarrow> (Inl e, w2)
      | (Inr _, w2) \<Rightarrow>
          (case (if coulomb then Tc_setter link (Vec [0, 0]) w2 else (Inr (), w2)) of
             (Inl e, w3) \<Rightarrow> (Inl e, w3)
           | (Inr _, w3) \<Rightarrow> (Inr link, w3)))"

section \<open>Predicates of the claims\<close>

text \<open>
  The properties the claims state of a stored inertia, written on the entries and not
  through the array operations of the setter: the array has three rows of three
  entries; no pair of mirrored entries differs by more than \<open>tol\<close>; some pair does.
\<close>

definition is_3x3 :: "real list list \<Rightarrow> bool" where
  "is_3x3 M = (length M = 3 \<and> list_all (\<lambda>row. length row = 3) M)"

definition symmetric_within :: "real \<Rightarrow> real list list \<Rightarrow> bool" where
  "symmetric_within tol M =
     list_all (\<lambda>i. list_all (\<lambda>j. \<bar>M ! i ! j - M ! j ! i\<bar> \<le> tol) [0..<3]) [0..<3]"

definition asymmetry_exceeds :: "real \<Rightarrow> real list list \<Rightarrow> bool" where
  "asymmetry_exceeds tol M =
     list_ex (\<lambda>i. list_ex (\<lambda>j. \<bar>M ! i ! j - M ! j ! i\<bar> > tol) [0..<3]) [0..<3]"

text \<open>
  What one call of a decorated setter does to the owner \<open>rb\<close>: its callback count goes
  up by exactly one, no other robot's count changes, and when the call raises no
  object has changed.
\<close>

definition notified_once :: "nat \<Rightarrow> world \<Rightarrow> (error + unit) \<times> world \<Rightarrow> bool" where
  "notified_once rb w res =
     (dyn_calls (snd res) = (dyn_calls w)(rb := Suc (dyn_calls w rb)) \<and>
      (case fst res of Inl e \<Rightarrow> objs (snd res) = objs w | Inr u \<Rightarrow> True))"

section \<open>The symmetry test on doubles\<close>

text \<open>
  The entries of a numpy array are IEEE 754 doubles, and the test of lines 520 and 526
  behaves differently from its real-valued reading when an entry is NaN. For that test
  a double is a finite number or NaN (infinities and rounding are left out): an
  operation with a NaN operand gives NaN, and an ordered comparison with a NaN operand
  is false.
\<close>

datatype double = Fin real | NaN

fun d_sub :: "double \<Rightarrow> double \<Rightarrow> double" where
  "d_sub (Fin x) (Fin y) = Fin (x - y)"
| "d_sub _ _ = NaN"

fun d_abs :: "double \<Rightarrow> double" where
  "d_abs (Fin x) = Fin \<bar>x\<bar>"
| "d_abs NaN = NaN"

fun d_gt :: "double \<Rightarrow> double \<Rightarrow> bool" where
  "d_gt (Fin x) (Fin y) = (x > y)"
| "d_gt _ _ = False"

fun d_le :: "double \<Rightarrow> double \<Rightarrow> bool" where
  "d_le (Fin x) (Fin y) = (x \<le> y)"
| "d_le _ _ = False"

text \<open>The array operations of the test, on arrays of doubles.\<close>

definition npd_T :: "double list list \<Rightarrow> double list list" where
  "npd_T M = (case M of [] \<Rightarrow> [] | row0 # _ \<Rightarrow> map (\<lambda>j. map (\<lambda>row. row ! j) M) [0..<length row0])"

definition npd_sub :: "double list list \<Rightarrow> double list list \<Rightarrow> double list list" where
  "npd_sub X Y = map (\<lambda>(xs, ys). map (\<lambda>(x, y). d_sub x y) (zip xs ys)) (zip X Y)"

definition npd_abs :: "double list list \<Rightarrow> double list list" where
  "npd_abs X = map (map d_abs) X"

definition npd_gt :: "double list list \<Rightarrow> double \<Rightarrow> bool list list" where
  "npd_gt X c = map (map (\<lambda>x. d_gt x c)) X"

text \<open>
  \<^verbatim>\<open>np.any(np.abs(I_new - I_new.T) > 1e-8)\<close>, and lines 518 to 521 and 542 to 545 of
  the setter of \<^verbatim>\<open>I\<close> for a two-dimensional array of doubles: the exception raised, or
  the array bound to \<^verbatim>\<open>self._I\<close>.
\<close>

definition not_symmetric_double :: "double list list \<Rightarrow> bool" where
  "not_symmetric_double M =
     np_any (npd_gt (npd_abs (npd_sub M (npd_T M))) (Fin (1 / 100000000)))"

definition I_body_double :: "double list list \<Rightarrow> error + double list list" where
  "I_body_double I_new =
     (if length I_new = 3 \<and> list_all (\<lambda>row. length row = 3) I_new then
        (if not_symmetric_double I_new then Inl (ValueError ''3x3 matrix is not symmetric'')
         else Inr I_new)
      else Inl (ValueError ''invalid shape passed: must be (3,3), (6,), (3,)''))"

text \<open>No pair of mirrored entries differs by more than \<open>tol\<close>, as a comparison of doubles.\<close>

definition symmetric_within_double :: "real \<Rightarrow> double list list \<Rightarrow> bool" where
  "symmetric_within_double tol M =
     list_all (\<lambda>i. list_all (\<lambda>j. d_le (d_abs (d_sub (M ! i ! j) (M ! j ! i))) (Fin tol))
       [0..<3]) [0..<3]"

section \<open>Example objects\<close>

text \<open>
  A link with the values of the default arguments of \<^verbatim>\<open>DHLink.__init__\<close> (lines 94
  to 109), and a state whose only object in use, at reference 0, is a given link.
\<close>

abbreviation default_link :: DHLink where
  "default_link \<equiv>
     \<lparr>dh_robot = None, dh_sigma = 0, dh_theta = 0, dh_d = 0, dh_alpha = 0, dh_a = 0,
      dh_mdh = 0, dh_offset = 0, dh_flip = False, dh_qlim = [0, 0], dh_m = 0,
      dh_r = [0, 0, 0], dh_I = [[0, 0, 0], [0, 0, 0], [0, 0, 0]], dh_Jm = 0, dh_B = 0,
      dh_Tc = [0, 0], dh_G = 1\<rparr>"

abbreviation one_link :: "DHLink \<Rightarrow> world" where
  "one_link l \<equiv> \<lparr>objs = (\<lambda>ref. l), next_ref = 1, dyn_calls = (\<lambda>rb. 0)\<rparr>"

section \<open>Auxiliary lemmas\<close>

lemma objs_notify_owner: "objs (notify_owner self w) = objs w"
  by (simp add: notify_owner_def dynchanged_def split: option.split)

lemma next_ref_notify_owner: "next_ref (notify_owner self w) = next_ref w"
  by (simp add: notify_owner_def dynchanged_def split: option.split)

lemma dyn_calls_notify_owner:
  "dyn_calls (notify_owner self w) =
     (case dh_robot (objs w self) of None \<Rightarrow> dyn_calls w
      | Some rb \<Rightarrow> (dyn_calls w)(rb := Suc (dyn_calls w rb)))"
  by (simp add: notify_owner_def dynchanged_def split: option.split)

lemma listen_dyn_Inl:
  assumes "func (objs w self) x = Inl e"
  shows "listen_dyn func self x w = (Inl e, notify_owner self w)"
  using assms by (simp add: listen_dyn_def call_setter_def objs_notify_owner)

lemma listen_dyn_Inr:
  assumes "func (objs w self) x = Inr l"
  shows "listen_dyn func self x w =
           (Inr (), (notify_owner self w)\<lparr>objs := (objs w)(self := l)\<rparr>)"
  using assms by (simp add: listen_dyn_def call_setter_def objs_notify_owner)

lemma listen_dyn_notified_once:
  assumes "dh_robot (objs w self) = Some rb"
  shows "notified_once rb w (listen_dyn func self x w)"
proof (cases "func (objs w self) x")
  case (Inl e)
  then show ?thesis
    using assms
    by (simp add: listen_dyn_Inl notified_once_def objs_notify_owner dyn_calls_notify_owner)
next
  case (Inr l)
  then show ?thesis
    using assms
    by (simp add: listen_dyn_Inr notified_once_def dyn_calls_notify_owner)
qed

lemma three_elems:
  assumes "length xs = 3"
  obtains x0 x1 x2 where "xs = [x0, x1, x2]"
  using assms by (cases xs; cases "tl xs"; cases "tl (tl xs)") auto

lemma is_3x3_entries:
  assumes "is_3x3 M"
  obtains a b c d e f g h i where "M = [[a, b, c], [d, e, f], [g, h, i]]"
proof -
  from assms have len: "length M = 3" and rows: "list_all (\<lambda>row. length row = 3) M"
    by (simp_all add: is_3x3_def)
  from len obtain r0 r1 r2 where M: "M = [r0, r1, r2]" by (rule three_elems)
  with rows have "length r0 = 3" "length r1 = 3" "length r2 = 3" by simp_all
  then obtain a b c d e f g h i
    where "r0 = [a, b, c]" "r1 = [d, e, f]" "r2 = [g, h, i]"
    by (metis three_elems)
  with M show ?thesis using that by simp
qed

lemma upt3: "[0..<3] = [0, 1, 2]"
  by (simp add: upt_rec)

lemma not_symmetric_3x3:
  assumes "is_3x3 M"
  shows "not_symmetric M = asymmetry_exceeds (1 / 100000000) M"
proof -
  from assms obtain a b c d e f g h i where M: "M = [[a, b, c], [d, e, f], [g, h, i]]"
    by (rule is_3x3_entries)
  show ?thesis
    unfolding M
    by (simp add: not_symmetric_def asymmetry_exceeds_def np_any_def np_gt_def np_abs_def
        np_sub_def np_T_def upt3)
qed

lemma not_symmetric_double_Fin:
  assumes "is_3x3 M"
  shows "not_symmetric_double (map (map Fin) M) = not_symmetric M"
proof -
  from assms obtain a b c d e f g h i where M: "M = [[a, b, c], [d, e, f], [g, h, i]]"
    by (rule is_3x3_entries)
  show ?thesis
    unfolding M
    by (simp add: not_symmetric_double_def not_symmetric_def np_any_def npd_gt_def npd_abs_def
        npd_sub_def npd_T_def np_gt_def np_abs_def np_sub_def np_T_def upt3)
qed

lemma symmetric_within_double_Fin:
  assumes "is_3x3 M"
  shows "symmetric_within_double tol (map (map Fin) M) = symmetric_within tol M"
proof -
  from assms obtain a b c d e f g h i where M: "M = [[a, b, c], [d, e, f], [g, h, i]]"
    by (rule is_3x3_entries)
  show ?thesis
    unfolding M
    by (simp add: symmetric_within_double_def symmetric_within_def upt3)
qed

lemma I_body_double_Fin:
  assumes "is_3x3 M"
  shows "I_body_double (map (map Fin) M) =
           (case I_body self (Mat M) of
              Inl e \<Rightarrow> Inl e
            | Inr l \<Rightarrow> Inr (map (map Fin) (dh_I l)))"
proof -
  from assms have shape: "length M = 3" "list_all (\<lambda>row. length row = 3) M"
    by (simp_all add: is_3x3_def)
  then have shape': "list_all (\<lambda>row. length row = 3) (map (map Fin) M)"
    by (simp add: list_all_iff)
  from shape have ism: "ismatrix (Mat M) (3, 3)"
    by (simp add: ismatrix_def)
  show ?thesis
    using shape shape' ism assms
    by (simp add: I_body_double_def I_body_def not_symmetric_double_Fin as_mat_def)
qed

lemma symmetric_within_iff: "symmetric_within tol M = (\<not> asymmetry_exceeds tol M)"
  by (simp add: symmetric_within_def asymmetry_exceeds_def upt3 not_less) 


lemma I_body_Inr:
  assumes "I_body self x = Inr l"
  shows "l = self\<lparr>dh_I := dh_I l\<rparr> \<and> is_3x3 (dh_I l) \<and>
         symmetric_within (1 / 100000000) (dh_I l) \<and>
         ((isvector x 6 \<or> isvector x 3) \<longrightarrow> symmetric_within 0 (dh_I l))"
proof (cases x)
  case (Scalar s)
  with assms show ?thesis
    by (simp add: I_body_def ismatrix_def isvector_def)
next
  case (Vec v)
  show ?thesis
  proof -
    consider "length v = 9" | "length v = 6" | "length v = 3"
      | "length v \<noteq> 9" "length v \<noteq> 6" "length v \<noteq> 3"
      by blast
    then show ?thesis
    proof cases
      case 1
      let ?M = "np_reshape v (3, 3)"
      have shape: "is_3x3 ?M"
        by (simp add: is_3x3_def np_reshape_def upt3)
      from assms Vec 1 have ok: "\<not> not_symmetric ?M" and l: "l = self\<lparr>dh_I := ?M\<rparr>"
        by (auto simp: I_body_def ismatrix_def isvector_def as_vec_def Let_def
            split: if_splits)
      from ok shape have "symmetric_within (1 / 100000000) ?M"
        by (simp add: not_symmetric_3x3 symmetric_within_iff)
      with shape l Vec 1 show ?thesis
        by (simp add: isvector_def)
    next
      case 2
      with assms Vec show ?thesis
        by (auto simp: I_body_def ismatrix_def isvector_def as_vec_def Let_def is_3x3_def
            symmetric_within_def upt3)
    next
      case 3
      with assms Vec show ?thesis
        by (auto simp: I_body_def ismatrix_def isvector_def as_vec_def Let_def is_3x3_def
            symmetric_within_def np_diag_def upt3)
    next
      case 4
      with assms Vec show ?thesis
        by (simp add: I_body_def ismatrix_def isvector_def)
    qed
  qed
next
  case (Mat M)
  show ?thesis
  proof (cases "is_3x3 M")
    case True
    with assms Mat have ok: "\<not> not_symmetric M" and l: "l = self\<lparr>dh_I := M\<rparr>"
      by (auto simp: I_body_def ismatrix_def is_3x3_def as_mat_def split: if_splits)
    from ok True have "symmetric_within (1 / 100000000) M"
      by (simp add: not_symmetric_3x3 symmetric_within_iff)
    with True l Mat show ?thesis
      by (simp add: isvector_def)
  next
    case False
    with Mat have "\<not> ismatrix x (3, 3)"
      by (simp add: ismatrix_def is_3x3_def)
    moreover from Mat have "\<not> isvector x n" for n
      by (simp add: isvector_def)
    ultimately show ?thesis
      using assms by (simp add: I_body_def)
  qed
qed

lemma I_body_not_symmetric:
  assumes "ismatrix x (3, 3)" and "asymmetry_exceeds (1 / 100000000) (as_mat x)"
  shows "I_body self x = Inl (ValueError ''3x3 matrix is not symmetric'')"
proof -
  from assms(1) have "is_3x3 (as_mat x)"
    by (auto simp: ismatrix_def is_3x3_def as_mat_def split: pyval.splits)
  with assms show ?thesis
    by (simp add: I_body_def not_symmetric_3x3)
qed

lemma I_body_not_symmetric9:
  assumes "isvector x 9" and "asymmetry_exceeds (1 / 100000000) (np_reshape (as_vec x) (3, 3))"
  shows "I_body self x = Inl (ValueError ''3x3 matrix is not symmetric'')"
proof -
  have "is_3x3 (np_reshape (as_vec x) (3, 3))"
    by (simp add: is_3x3_def np_reshape_def upt3)
  moreover from assms(1) have "\<not> ismatrix x (3, 3)"
    by (auto simp: ismatrix_def isvector_def split: pyval.splits)
  ultimately show ?thesis
    using assms by (simp add: I_body_def not_symmetric_3x3 Let_def)
qed

lemma I_body_bad_shape:
  assumes "\<not> ismatrix x (3, 3)" and "\<not> isvector x 9" and "\<not> isvector x 6" and "\<not> isvector x 3"
  shows "I_body self x = Inl (ValueError ''invalid shape passed: must be (3,3), (6,), (3,)'')"
  using assms by (simp add: I_body_def)

lemma B_setter_zero:
  "B_setter l (Scalar 0) w =
     (Inr (), (notify_owner l w)\<lparr>objs := (objs w)(l := (objs w l)\<lparr>dh_B := 0\<rparr>)\<rparr>)"
  by (simp add: B_setter_def listen_dyn_Inr B_body_def isscalar_def as_scalar_def)

lemma Tc_setter_zero:
  "Tc_setter l (Vec [0, 0]) w =
     (Inr (), (notify_owner l w)\<lparr>objs := (objs w)(l := (objs w l)\<lparr>dh_Tc := [0, 0]\<rparr>)\<rparr>)"
  by (simp add: Tc_setter_def listen_dyn_Inr Tc_body_def getvector_def)

lemma nofriction_result:
  "\<exists>w'. nofriction self coulomb viscous w = (Inr (next_ref w), w') \<and>
        next_ref w' = Suc (next_ref w) \<and>
        objs w' = (objs w)(next_ref w := (objs w self)
          \<lparr>dh_B := (if viscous then 0 else dh_B (objs w self)),
           dh_Tc := (if coulomb then [0, 0] else dh_Tc (objs w self))\<rparr>)"
  by (cases coulomb; cases viscous)
    (simp_all add: nofriction_def copy_link_def B_setter_zero Tc_setter_zero
      objs_notify_owner next_ref_notify_owner)

section \<open>Theorems\<close>

text \<open>
  C1: for every record whose Coulomb friction is the pair \<open>(tp, tn)\<close> and every joint
  velocity \<open>qd\<close>, \<open>friction\<close> returns \<open>- |G| * tau\<close> where \<open>tau\<close> is \<open>B * |G| * qd\<close>
  plus, when Coulomb friction is included, \<open>tp\<close> if \<open>qd > 0\<close>, \<open>tn\<close> if \<open>qd < 0\<close> and
  nothing if \<open>qd = 0\<close>. The viscous term is therefore scaled by \<open>|G|\<close> twice.
\<close>

theorem friction_formula:
  assumes "dh_Tc self = [tp, tn]"
  shows "friction self qd coulomb =
           Inr (- \<bar>dh_G self\<bar> *
                  (dh_B self * \<bar>dh_G self\<bar> * qd +
                   (if coulomb \<and> qd > 0 then tp else if coulomb \<and> qd < 0 then tn else 0)))"
  using assms by (simp add: friction_def getitem_def Let_def)

text \<open>
  The spec's example: \<open>B = 2\<close>, \<open>G = -3\<close>, \<open>Tc = (1, -1)\<close> and \<open>qd = 4\<close> give \<open>-75\<close>.
\<close>

theorem friction_formula_witness:
  "friction \<lparr>dh_robot = None, dh_sigma = 0, dh_theta = 0, dh_d = 0, dh_alpha = 0, dh_a = 0,
      dh_mdh = 0, dh_offset = 0, dh_flip = False, dh_qlim = [0, 0], dh_m = 0,
      dh_r = [0, 0, 0], dh_I = [[0, 0, 0], [0, 0, 0], [0, 0, 0]], dh_Jm = 0, dh_B = 2,
      dh_Tc = [1, - 1], dh_G = - 3\<rparr> 4 True = Inr (- 75)"
  using friction_formula [of "\<lparr>dh_robot = None, dh_sigma = 0, dh_theta = 0, dh_d = 0,
      dh_alpha = 0, dh_a = 0, dh_mdh = 0, dh_offset = 0, dh_flip = False, dh_qlim = [0, 0],
      dh_m = 0, dh_r = [0, 0, 0], dh_I = [[0, 0, 0], [0, 0, 0], [0, 0, 0]], dh_Jm = 0,
      dh_B = 2, dh_Tc = [1, - 1], dh_G = - 3\<rparr>" 1 "- 1" 4 True]
  by simp

text \<open>
  C2: for every record and joint variable \<open>q\<close>, the transform is built from
  \<open>qAdj = -q + offset\<close> if flipped, else \<open>q + offset\<close>; a revolute joint uses
  \<open>sin qAdj\<close>, \<open>cos qAdj\<close> and \<open>d\<close>, a prismatic joint \<open>sin theta\<close>, \<open>cos theta\<close> and
  \<open>qAdj\<close>; the result is exactly the standard matrix when \<open>mdh = 0\<close> and the modified
  matrix otherwise.
\<close>

theorem A_matrix:
  "A self q =
     (let sa = sin (dh_alpha self);
          ca = cos (dh_alpha self);
          qAdj = (if dh_flip self then - q + dh_offset self else q + dh_offset self);
          st = (if isrevolute self then sin qAdj else sin (dh_theta self));
          ct = (if isrevolute self then cos qAdj else cos (dh_theta self));
          dEff = (if isrevolute self then dh_d self else qAdj)
      in if dh_mdh self = 0 then
           [[ct, - st * ca, st * sa, dh_a self * ct],
            [st, ct * ca, - ct * sa, dh_a self * st],
            [0, sa, ca, dEff],
            [0, 0, 0, 1]]
         else
           [[ct, - st, 0, dh_a self],
            [st * ca, ct * ca, - sa, - sa * dEff],
            [st * sa, ct * sa, ca, ca * dEff],
            [0, 0, 0, 1]])"
  by (simp add: A_def isrevolute_def dh_sin_def dh_cos_def Let_def)

text \<open>
  The spec's example: a standard prismatic joint with \<open>theta = 0\<close>, \<open>alpha = 0\<close>,
  \<open>a = 0\<close> (and the constructor's defaults \<open>offset = 0\<close>, \<open>flip = False\<close>) at \<open>q = 3\<close>
  has the identity as rotation block and the translation \<open>(0, 0, 3)\<close>.
\<close>

theorem A_matrix_witness:
  "A \<lparr>dh_robot = None, dh_sigma = 1, dh_theta = 0, dh_d = 0, dh_alpha = 0, dh_a = 0,
      dh_mdh = 0, dh_offset = 0, dh_flip = False, dh_qlim = [0, 0], dh_m = 0,
      dh_r = [0, 0, 0], dh_I = [[0, 0, 0], [0, 0, 0], [0, 0, 0]], dh_Jm = 0, dh_B = 0,
      dh_Tc = [0, 0], dh_G = 1\<rparr> 3 =
     [[1, 0, 0, 0],
      [0, 1, 0, 0],
      [0, 0, 1, 3],
      [0, 0, 0, 1]]"
  using A_matrix [of "\<lparr>dh_robot = None, dh_sigma = 1, dh_theta = 0, dh_d = 0, dh_alpha = 0,
      dh_a = 0, dh_mdh = 0, dh_offset = 0, dh_flip = False, dh_qlim = [0, 0], dh_m = 0,
      dh_r = [0, 0, 0], dh_I = [[0, 0, 0], [0, 0, 0], [0, 0, 0]], dh_Jm = 0, dh_B = 0,
      dh_Tc = [0, 0], dh_G = 1\<rparr>" 3]
  by (simp add: isrevolute_def)

text \<open>
  C5: for every revolute record with \<open>flip = True\<close> and \<open>offset = 0\<close> and every \<open>q\<close>,
  the transform at \<open>q\<close> equals the transform of the same record with \<open>flip = False\<close>
  at \<open>-q\<close>.
\<close>

theorem A_flip:
  assumes "isrevolute self" and "dh_flip self" and "dh_offset self = 0"
  shows "A self q = A (self\<lparr>dh_flip := False\<rparr>) (- q)"
  using assms by (simp add: A_def isrevolute_def Let_def)

theorem A_flip_witness:
  "A \<lparr>dh_robot = None, dh_sigma = 0, dh_theta = 0, dh_d = 2, dh_alpha = 0, dh_a = 1,
      dh_mdh = 0, dh_offset = 0, dh_flip = True, dh_qlim = [0, 0], dh_m = 0,
      dh_r = [0, 0, 0], dh_I = [[0, 0, 0], [0, 0, 0], [0, 0, 0]], dh_Jm = 0, dh_B = 0,
      dh_Tc = [0, 0], dh_G = 1\<rparr> 5 =
   A \<lparr>dh_robot = None, dh_sigma = 0, dh_theta = 0, dh_d = 2, dh_alpha = 0, dh_a = 1,
      dh_mdh = 0, dh_offset = 0, dh_flip = False, dh_qlim = [0, 0], dh_m = 0,
      dh_r = [0, 0, 0], dh_I = [[0, 0, 0], [0, 0, 0], [0, 0, 0]], dh_Jm = 0, dh_B = 0,
      dh_Tc = [0, 0], dh_G = 1\<rparr> (- 5)"
  using A_flip [of "\<lparr>dh_robot = None, dh_sigma = 0, dh_theta = 0, dh_d = 2, dh_alpha = 0,
      dh_a = 1, dh_mdh = 0, dh_offset = 0, dh_flip = True, dh_qlim = [0, 0], dh_m = 0,
      dh_r = [0, 0, 0], dh_I = [[0, 0, 0], [0, 0, 0], [0, 0, 0]], dh_Jm = 0, dh_B = 0,
      dh_Tc = [0, 0], dh_G = 1\<rparr>" 5]
  by (simp add: isrevolute_def)

text \<open>
  C9 (as amended): for every record with limits \<open>(mn, mx)\<close> and every \<open>q\<close>, \<open>islimit\<close>
  returns true if and only if \<open>q < mn\<close> or \<open>q > mx\<close>; when \<open>mn \<le> mx\<close> it returns
  false at \<open>q = mn\<close> and at \<open>q = mx\<close>.
\<close>

theorem islimit_iff:
  assumes "dh_qlim self = [mn, mx]"
  shows "islimit self q = Inr (q < mn \<or> q > mx) \<and>
         (mn \<le> mx \<longrightarrow> islimit self mn = Inr False \<and> islimit self mx = Inr False)"
  using assms by (simp add: islimit_def getitem_def)

theorem islimit_iff_witness:
  "islimit \<lparr>dh_robot = None, dh_sigma = 0, dh_theta = 0, dh_d = 0, dh_alpha = 0, dh_a = 0,
      dh_mdh = 0, dh_offset = 0, dh_flip = False, dh_qlim = [- 1, 2], dh_m = 0,
      dh_r = [0, 0, 0], dh_I = [[0, 0, 0], [0, 0, 0], [0, 0, 0]], dh_Jm = 0, dh_B = 0,
      dh_Tc = [0, 0], dh_G = 1\<rparr> 3 = Inr True \<and>
   islimit \<lparr>dh_robot = None, dh_sigma = 0, dh_theta = 0, dh_d = 0, dh_alpha = 0, dh_a = 0,
      dh_mdh = 0, dh_offset = 0, dh_flip = False, dh_qlim = [- 1, 2], dh_m = 0,
      dh_r = [0, 0, 0], dh_I = [[0, 0, 0], [0, 0, 0], [0, 0, 0]], dh_Jm = 0, dh_B = 0,
      dh_Tc = [0, 0], dh_G = 1\<rparr> 2 = Inr False"
  using islimit_iff [of "\<lparr>dh_robot = None, dh_sigma = 0, dh_theta = 0, dh_d = 0,
      dh_alpha = 0, dh_a = 0, dh_mdh = 0, dh_offset = 0, dh_flip = False,
      dh_qlim = [- 1, 2], dh_m = 0, dh_r = [0, 0, 0],
      dh_I = [[0, 0, 0], [0, 0, 0], [0, 0, 0]], dh_Jm = 0, dh_B = 0, dh_Tc = [0, 0],
      dh_G = 1\<rparr>" "- 1" 2 3]
  by simp

text \<open>
  The claim as stated fails where the limits are not in order, which no setter checks:
  with limits \<open>(5, 1)\<close> the value \<open>q = 5\<close> equals the first limit exactly and \<open>islimit\<close>
  returns true, because \<open>5 > 1\<close>.
\<close>

theorem islimit_boundary_counterexample:
  "islimit \<lparr>dh_robot = None, dh_sigma = 0, dh_theta = 0, dh_d = 0, dh_alpha = 0, dh_a = 0,
      dh_mdh = 0, dh_offset = 0, dh_flip = False, dh_qlim = [5, 1], dh_m = 0,
      dh_r = [0, 0, 0], dh_I = [[0, 0, 0], [0, 0, 0], [0, 0, 0]], dh_Jm = 0, dh_B = 0,
      dh_Tc = [0, 0], dh_G = 1\<rparr> 5 = Inr True"
  by (simp add: islimit_def getitem_def)

text \<open>
  C3: on a revolute record, assigning a nonzero value to \<open>theta\<close> raises the
  \<^verbatim>\<open>ValueError\<close> of line 473 and assigning 0 succeeds; on a prismatic record,
  assigning a nonzero value to \<open>d\<close> raises the \<^verbatim>\<open>ValueError\<close> of line 460 and
  assigning 0 succeeds. When the setter raises, no object has changed. (The spec calls
  both exceptions \<open>ConstraintViolation\<close>.)
\<close>

theorem theta_d_setter_constraint:
  "(isrevolute (objs w self) \<longrightarrow>
      (v \<noteq> 0 \<longrightarrow>
         (case theta_setter self v w of (res, w') \<Rightarrow>
            res = Inl (ValueError ''theta is not valid for revolute joints'') \<and>
            objs w' = objs w)) \<and>
      (case theta_setter self 0 w of (res, w') \<Rightarrow>
         res = Inr () \<and> dh_theta (objs w' self) = 0)) \<and>
   (isprismatic (objs w self) \<longrightarrow>
      (v \<noteq> 0 \<longrightarrow>
         (case d_setter self v w of (res, w') \<Rightarrow>
            res = Inl (ValueError ''f is not valid for prismatic joints'') \<and>
            objs w' = objs w)) \<and>
      (case d_setter self 0 w of (res, w') \<Rightarrow>
         res = Inr () \<and> dh_d (objs w' self) = 0))"
  by (simp add: theta_setter_def d_setter_def listen_dyn_def call_setter_def theta_body_def
      d_body_def isrevolute_def isprismatic_def objs_notify_owner)

theorem theta_d_setter_constraint_witness:
  "fst (theta_setter 0 (1 / 2) (one_link (default_link\<lparr>dh_theta := 0\<rparr>))) =
     Inl (ValueError ''theta is not valid for revolute joints'') \<and>
   dh_theta (objs (snd (theta_setter 0 (1 / 2) (one_link (default_link\<lparr>dh_theta := 0\<rparr>)))) 0) = 0 \<and>
   fst (theta_setter 0 0 (one_link (default_link\<lparr>dh_theta := 0\<rparr>))) = Inr () \<and>
   fst (d_setter 0 (1 / 2) (one_link (default_link\<lparr>dh_sigma := 1\<rparr>))) =
     Inl (ValueError ''f is not valid for prismatic joints'') \<and>
   fst (d_setter 0 0 (one_link (default_link\<lparr>dh_sigma := 1\<rparr>))) = Inr ()"
  using theta_d_setter_constraint [of "one_link (default_link\<lparr>dh_theta := 0\<rparr>)" 0 "1 / 2"]
    theta_d_setter_constraint [of "one_link (default_link\<lparr>dh_sigma := 1\<rparr>)" 0 "1 / 2"]
  by (simp add: isrevolute_def isprismatic_def split: prod.splits)

text \<open>
  C6: setting the inertia from the 6-vector \<open>[Ixx, Iyy, Izz, Ixy, Iyz, Ixz]\<close> succeeds
  and the stored matrix has the diagonal \<open>(Ixx, Iyy, Izz)\<close>, \<open>Ixy\<close> at (0,1) and (1,0),
  \<open>Iyz\<close> at (1,2) and (2,1), and \<open>Ixz\<close> at (0,2) and (2,0).
\<close>

theorem I_setter_6vector:
  "(case I_setter self (Vec [Ixx, Iyy, Izz, Ixy, Iyz, Ixz]) w of (res, w') \<Rightarrow>
      res = Inr () \<and>
      dh_I (objs w' self) = [[Ixx, Ixy, Ixz], [Ixy, Iyy, Iyz], [Ixz, Iyz, Izz]] \<and>
      (let M = dh_I (objs w' self) in
         M ! 0 ! 0 = Ixx \<and> M ! 1 ! 1 = Iyy \<and> M ! 2 ! 2 = Izz \<and>
         M ! 0 ! 1 = Ixy \<and> M ! 1 ! 0 = Ixy \<and>
         M ! 1 ! 2 = Iyz \<and> M ! 2 ! 1 = Iyz \<and>
         M ! 0 ! 2 = Ixz \<and> M ! 2 ! 0 = Ixz))"
  by (simp add: I_setter_def listen_dyn_def call_setter_def I_body_def ismatrix_def
      isvector_def as_vec_def Let_def)

text \<open>
  C7: setting the Coulomb friction from a scalar \<open>F\<close> (or a 1-vector) stores
  \<open>[F, -F]\<close>; from a 2-vector it stores both components as given; from a vector of any
  other length it raises \<^verbatim>\<open>ValueError\<close> (the spec's \<open>ShapeError\<close>) and no object has
  changed.
\<close>

theorem Tc_setter_cases:
  "(case Tc_setter self (Scalar F) w of (res, w') \<Rightarrow>
      res = Inr () \<and> dh_Tc (objs w' self) = [F, - F]) \<and>
   (case Tc_setter self (Vec [F]) w of (res, w') \<Rightarrow>
      res = Inr () \<and> dh_Tc (objs w' self) = [F, - F]) \<and>
   (case Tc_setter self (Vec [tp, tn]) w of (res, w') \<Rightarrow>
      res = Inr () \<and> dh_Tc (objs w' self) = [tp, tn]) \<and>
   (length v \<noteq> 1 \<and> length v \<noteq> 2 \<longrightarrow>
      (case Tc_setter self (Vec v) w of (res, w') \<Rightarrow>
         (\<exists>msg. res = Inl (ValueError msg)) \<and> objs w' = objs w))"
  by (simp add: Tc_setter_def listen_dyn_def call_setter_def Tc_body_def getvector_def
      getitem_def Let_def objs_notify_owner)

theorem Tc_setter_cases_witness:
  "dh_Tc (objs (snd (Tc_setter 0 (Scalar 5) (one_link default_link))) 0) = [5, - 5] \<and>
   (\<exists>msg. fst (Tc_setter 0 (Vec [1, 2, 3]) (one_link default_link)) = Inl (ValueError msg)) \<and>
   objs (snd (Tc_setter 0 (Vec [1, 2, 3]) (one_link default_link))) =
     objs (one_link default_link)"
  using Tc_setter_cases [of 0 5 "one_link default_link" 0 0 "[1, 2, 3]"]
  by (simp split: prod.splits)

text \<open>
  The inertia setter on inputs none of whose entries is NaN: after a successful
  assignment to \<open>I\<close> the stored inertia is a 3x3 array, symmetric within \<open>1e-8\<close>, and
  exactly symmetric when the input was a 6-vector or a 3-vector; a 3x3 matrix, or a
  9-vector reshaped to 3x3, whose asymmetry exceeds \<open>1e-8\<close> somewhere raises the
  \<^verbatim>\<open>ValueError\<close> of lines 521 and 527 (the spec's \<open>SymmetryError\<close>); an input that is
  none of the four shapes raises the \<^verbatim>\<open>ValueError\<close> of line 543 (the spec's
  \<open>ShapeError\<close>); when the setter raises, no object has changed.
\<close>

theorem I_setter_symmetric:
  "(case I_setter self x w of (res, w') \<Rightarrow>
      (res = Inr () \<longrightarrow>
         is_3x3 (dh_I (objs w' self)) \<and>
         symmetric_within (1 / 100000000) (dh_I (objs w' self)) \<and>
         ((isvector x 6 \<or> isvector x 3) \<longrightarrow> symmetric_within 0 (dh_I (objs w' self)))) \<and>
      (ismatrix x (3, 3) \<and> asymmetry_exceeds (1 / 100000000) (as_mat x) \<longrightarrow>
         res = Inl (ValueError ''3x3 matrix is not symmetric'') \<and> objs w' = objs w) \<and>
      (isvector x 9 \<and> asymmetry_exceeds (1 / 100000000) (np_reshape (as_vec x) (3, 3)) \<longrightarrow>
         res = Inl (ValueError ''3x3 matrix is not symmetric'') \<and> objs w' = objs w) \<and>
      (\<not> ismatrix x (3, 3) \<and> \<not> isvector x 9 \<and> \<not> isvector x 6 \<and> \<not> isvector x 3 \<longrightarrow>
         res = Inl (ValueError ''invalid shape passed: must be (3,3), (6,), (3,)'') \<and>
         objs w' = objs w))"
proof (cases "I_body (objs w self) x")
  case (Inl e)
  then have run: "I_setter self x w = (Inl e, notify_owner self w)"
    by (simp add: I_setter_def listen_dyn_Inl)
  have "e = ValueError ''3x3 matrix is not symmetric''"
    if "ismatrix x (3, 3)" "asymmetry_exceeds (1 / 100000000) (as_mat x)"
    using that Inl I_body_not_symmetric [of x "objs w self"] by simp
  moreover have "e = ValueError ''3x3 matrix is not symmetric''"
    if "isvector x 9" "asymmetry_exceeds (1 / 100000000) (np_reshape (as_vec x) (3, 3))"
    using that Inl I_body_not_symmetric9 [of x "objs w self"] by simp
  moreover have "e = ValueError ''invalid shape passed: must be (3,3), (6,), (3,)''"
    if "\<not> ismatrix x (3, 3)" "\<not> isvector x 9" "\<not> isvector x 6" "\<not> isvector x 3"
    using that Inl I_body_bad_shape [of x "objs w self"] by simp
  ultimately show ?thesis
    by (simp add: run objs_notify_owner)
next
  case (Inr l)
  then have run: "I_setter self x w =
      (Inr (), (notify_owner self w)\<lparr>objs := (objs w)(self := l)\<rparr>)"
    by (simp add: I_setter_def listen_dyn_Inr)
  from Inr have stored: "is_3x3 (dh_I l)" "symmetric_within (1 / 100000000) (dh_I l)"
    "(isvector x 6 \<or> isvector x 3) \<longrightarrow> symmetric_within 0 (dh_I l)"
    using I_body_Inr [of "objs w self" x l] by simp_all
  have "\<not> (ismatrix x (3, 3) \<and> asymmetry_exceeds (1 / 100000000) (as_mat x))"
    using Inr I_body_not_symmetric [of x "objs w self"] by auto
  moreover have "\<not> (isvector x 9 \<and>
      asymmetry_exceeds (1 / 100000000) (np_reshape (as_vec x) (3, 3)))"
    using Inr I_body_not_symmetric9 [of x "objs w self"] by auto
  moreover have "\<not> (\<not> ismatrix x (3, 3) \<and> \<not> isvector x 9 \<and> \<not> isvector x 6 \<and> \<not> isvector x 3)"
    using Inr I_body_bad_shape [of x "objs w self"] by auto
  ultimately show ?thesis
    using stored by (simp add: run)
qed

theorem I_setter_symmetric_witness:
  "fst (I_setter 0 (Mat [[1, 2, 0], [2, 1, 0], [0, 0, 1]]) (one_link default_link)) = Inr () \<and>
   fst (I_setter 0 (Mat [[1, 2, 0], [3, 1, 0], [0, 0, 1]]) (one_link default_link)) =
     Inl (ValueError ''3x3 matrix is not symmetric'') \<and>
   fst (I_setter 0 (Vec [1, 2]) (one_link default_link)) =
     Inl (ValueError ''invalid shape passed: must be (3,3), (6,), (3,)'') \<and>
   objs (snd (I_setter 0 (Vec [1, 2]) (one_link default_link))) = objs (one_link default_link)"
  using I_setter_symmetric [of 0 "Mat [[1, 2, 0], [3, 1, 0], [0, 0, 1]]" "one_link default_link"]
    I_setter_symmetric [of 0 "Vec [1, 2]" "one_link default_link"]
  by (simp add: I_setter_def listen_dyn_def call_setter_def I_body_def ismatrix_def
      isvector_def as_mat_def not_symmetric_def np_any_def np_gt_def np_abs_def np_sub_def
      np_T_def upt3 notify_owner_def split: prod.splits)

text \<open>
  C4 says that after every successful assignment to \<open>I\<close> the stored inertia is
  symmetric within \<open>1e-8\<close>. The code breaks this where an entry is NaN: the setter
  rejects a 3x3 array only when some \<open>|M[i][j] - M[j][i]| > 1e-8\<close> is true, and with a
  NaN operand that comparison is false. For the 3x3 array with NaN at (0,1) and 7 at
  (1,0) nothing is raised and the array is stored, although its entries (0,1) and
  (1,0) are not within \<open>1e-8\<close> of each other. The docstring of \<open>I\<close>
  (lines 369 to 385) calls the link inertia a symmetric 3x3 matrix, and the setter's
  own message is \<^verbatim>\<open>3x3 matrix is not symmetric\<close>.
\<close>

theorem I_setter_nan_accepted:
  "I_body_double [[Fin 1, NaN, Fin 0], [Fin 7, Fin 1, Fin 0], [Fin 0, Fin 0, Fin 1]] =
     Inr [[Fin 1, NaN, Fin 0], [Fin 7, Fin 1, Fin 0], [Fin 0, Fin 0, Fin 1]] \<and>
   \<not> symmetric_within_double (1 / 100000000)
       [[Fin 1, NaN, Fin 0], [Fin 7, Fin 1, Fin 0], [Fin 0, Fin 0, Fin 1]]"
  by (simp add: I_body_double_def not_symmetric_double_def np_any_def npd_gt_def npd_abs_def
      npd_sub_def npd_T_def symmetric_within_double_def upt3)

text \<open>
  C8: for every link in use, \<open>nofriction\<close> returns a new link, and \<open>nofriction\<close> of
  that link with the same flags returns a link with the same \<open>B\<close> and \<open>Tc\<close> (indeed
  the same attributes); the original link, and the first copy, are unchanged. With
  the default flags (\<open>coulomb = True\<close>, \<open>viscous = False\<close>) the new link has
  \<open>Tc = [0, 0]\<close> and the \<open>B\<close> of the original.
\<close>

theorem nofriction_idempotent:
  assumes "self < next_ref w"
  shows "(\<exists>l1 w1 l2 w2.
            nofriction self coulomb viscous w = (Inr l1, w1) \<and>
            nofriction l1 coulomb viscous w1 = (Inr l2, w2) \<and>
            dh_B (objs w2 l2) = dh_B (objs w1 l1) \<and>
            dh_Tc (objs w2 l2) = dh_Tc (objs w1 l1) \<and>
            objs w2 l2 = objs w1 l1 \<and>
            objs w1 self = objs w self \<and> objs w2 self = objs w self \<and>
            objs w2 l1 = objs w1 l1) \<and>
         (\<exists>l w'.
            nofriction self True False w = (Inr l, w') \<and>
            dh_Tc (objs w' l) = [0, 0] \<and> dh_B (objs w' l) = dh_B (objs w self) \<and>
            objs w' self = objs w self)"
proof
  let ?l1 = "next_ref w"
  obtain w1 where first: "nofriction self coulomb viscous w = (Inr ?l1, w1)"
    and next1: "next_ref w1 = Suc ?l1"
    and objs1: "objs w1 = (objs w)(?l1 := (objs w self)
          \<lparr>dh_B := (if viscous then 0 else dh_B (objs w self)),
           dh_Tc := (if coulomb then [0, 0] else dh_Tc (objs w self))\<rparr>)"
    using nofriction_result [of self coulomb viscous w] by blast
  let ?l2 = "next_ref w1"
  obtain w2 where second: "nofriction ?l1 coulomb viscous w1 = (Inr ?l2, w2)"
    and objs2: "objs w2 = (objs w1)(?l2 := (objs w1 ?l1)
          \<lparr>dh_B := (if viscous then 0 else dh_B (objs w1 ?l1)),
           dh_Tc := (if coulomb then [0, 0] else dh_Tc (objs w1 ?l1))\<rparr>)"
    using nofriction_result [of ?l1 coulomb viscous w1] by blast
  from assms have orig1: "objs w1 self = objs w self"
    by (simp add: objs1)
  from assms have orig2: "objs w2 self = objs w self" and kept: "objs w2 ?l1 = objs w1 ?l1"
    by (simp_all add: objs2 next1 objs1)
  have same: "objs w2 ?l2 = objs w1 ?l1"
    by (simp add: objs2 objs1)
  show "\<exists>l1 w1 l2 w2.
            nofriction self coulomb viscous w = (Inr l1, w1) \<and>
            nofriction l1 coulomb viscous w1 = (Inr l2, w2) \<and>
            dh_B (objs w2 l2) = dh_B (objs w1 l1) \<and>
            dh_Tc (objs w2 l2) = dh_Tc (objs w1 l1) \<and>
            objs w2 l2 = objs w1 l1 \<and>
            objs w1 self = objs w self \<and> objs w2 self = objs w self \<and>
            objs w2 l1 = objs w1 l1"
    using first second same orig1 orig2 kept by auto
next
  obtain w' where run: "nofriction self True False w = (Inr (next_ref w), w')"
    and objs': "objs w' = (objs w)(next_ref w := (objs w self)
          \<lparr>dh_B := (if False then 0 else dh_B (objs w self)),
           dh_Tc := (if True then [0, 0] else dh_Tc (objs w self))\<rparr>)"
    using nofriction_result [of self True False w] by blast
  from assms have "objs w' self = objs w self"
    by (simp add: objs')
  moreover have "dh_Tc (objs w' (next_ref w)) = [0, 0]"
    and "dh_B (objs w' (next_ref w)) = dh_B (objs w self)"
    by (simp_all add: objs')
  ultimately show "\<exists>l w'.
            nofriction self True False w = (Inr l, w') \<and>
            dh_Tc (objs w' l) = [0, 0] \<and> dh_B (objs w' l) = dh_B (objs w self) \<and>
            objs w' self = objs w self"
    using run by blast
qed

theorem nofriction_idempotent_witness:
  "(\<exists>l1 w1 l2 w2.
      nofriction 0 True True (one_link (default_link\<lparr>dh_B := 2, dh_Tc := [1, - 1]\<rparr>)) =
        (Inr l1, w1) \<and>
      nofriction l1 True True w1 = (Inr l2, w2) \<and>
      dh_B (objs w2 l2) = dh_B (objs w1 l1) \<and>
      dh_Tc (objs w2 l2) = dh_Tc (objs w1 l1) \<and>
      objs w2 l2 = objs w1 l1 \<and>
      objs w1 0 = default_link\<lparr>dh_B := 2, dh_Tc := [1, - 1]\<rparr> \<and>
      objs w2 0 = default_link\<lparr>dh_B := 2, dh_Tc := [1, - 1]\<rparr> \<and>
      objs w2 l1 = objs w1 l1) \<and>
   (\<exists>l w'.
      nofriction 0 True False (one_link (default_link\<lparr>dh_B := 2, dh_Tc := [1, - 1]\<rparr>)) =
        (Inr l, w') \<and>
      dh_Tc (objs w' l) = [0, 0] \<and> dh_B (objs w' l) = 2 \<and>
      objs w' 0 = default_link\<lparr>dh_B := 2, dh_Tc := [1, - 1]\<rparr>)"
  using nofriction_idempotent
    [of 0 "one_link (default_link\<lparr>dh_B := 2, dh_Tc := [1, - 1]\<rparr>)" True True]
  by simp

text \<open>
  C10: for every link with an owner, one call of any of the thirteen setters decorated
  with \<^verbatim>\<open>_listen_dyn\<close> (\<open>d\<close>, \<open>alpha\<close>, \<open>theta\<close>, \<open>a\<close>, \<open>sigma\<close>, \<open>mdh\<close>, \<open>m\<close>,
  \<open>r\<close>, \<open>I\<close>, \<open>Jm\<close>, \<open>B\<close>, \<open>Tc\<close>, \<open>G\<close>) calls the owner's \<^verbatim>\<open>dynchanged\<close> exactly
  once, also when the setter then raises and leaves every object unchanged.
\<close>

theorem setters_notify_owner:
  assumes "dh_robot (objs w self) = Some rb"
  shows "notified_once rb w (d_setter self d_new w) \<and>
         notified_once rb w (alpha_setter self alpha_new w) \<and>
         notified_once rb w (theta_setter self theta_new w) \<and>
         notified_once rb w (a_setter self a_new w) \<and>
         notified_once rb w (sigma_setter self sigma_new w) \<and>
         notified_once rb w (mdh_setter self mdh_new w) \<and>
         notified_once rb w (m_setter self m_new w) \<and>
         notified_once rb w (r_setter self r_new w) \<and>
         notified_once rb w (I_setter self I_new w) \<and>
         notified_once rb w (Jm_setter self Jm_new w) \<and>
         notified_once rb w (B_setter self B_new w) \<and>
         notified_once rb w (Tc_setter self Tc_new w) \<and>
         notified_once rb w (G_setter self G_new w)"
  unfolding d_setter_def alpha_setter_def theta_setter_def a_setter_def sigma_setter_def
    mdh_setter_def m_setter_def r_setter_def I_setter_def Jm_setter_def B_setter_def
    Tc_setter_def G_setter_def
  using assms by (simp add: listen_dyn_notified_once)

theorem setters_notify_owner_witness:
  "fst (d_setter 0 1 (one_link (default_link\<lparr>dh_robot := Some 7, dh_sigma := 1\<rparr>))) =
     Inl (ValueError ''f is not valid for prismatic joints'') \<and>
   dyn_calls (snd (d_setter 0 1 (one_link (default_link\<lparr>dh_robot := Some 7, dh_sigma := 1\<rparr>)))) 7 = 1 \<and>
   objs (snd (d_setter 0 1 (one_link (default_link\<lparr>dh_robot := Some 7, dh_sigma := 1\<rparr>)))) =
     objs (one_link (default_link\<lparr>dh_robot := Some 7, dh_sigma := 1\<rparr>)) \<and>
   fst (I_setter 0 (Vec [1, 2]) (one_link (default_link\<lparr>dh_robot := Some 7, dh_sigma := 1\<rparr>))) =
     Inl (ValueError ''invalid shape passed: must be (3,3), (6,), (3,)'') \<and>
   dyn_calls (snd (I_setter 0 (Vec [1, 2])
     (one_link (default_link\<lparr>dh_robot := Some 7, dh_sigma := 1\<rparr>)))) 7 = 1"
  using setters_notify_owner
    [of "one_link (default_link\<lparr>dh_robot := Some 7, dh_sigma := 1\<rparr>)" 0 7 1 0 0 0 0 0 0
      "Vec []" "Vec [1, 2]" 0 "Scalar 0" "Scalar 0" 0]
  by (simp add: notified_once_def d_setter_def I_setter_def listen_dyn_def call_setter_def
      d_body_def I_body_def ismatrix_def isvector_def objs_notify_owner)

end
